theory Spec2Isabelle
  imports Main
begin

section \<open>The beacon replay script \<open>wifi_fuzzer.py\<close>\<close>

text \<open>
  The script is a straight line of statements on one parsed beacon frame:
  \<^verbatim>\<open>
  frames = rdpcap("base_packet.pcapng")
  frame = frames[0]
  frame.show()
  ssid_name = "A"*32
  frame[Dot11Elt][0].info = ssid_name
  frame[Dot11Elt][0].len = 32
  frame.addr2 = "40:e3:d6:bf:dd:01"
  print("SSID " + str(frame.info))
  print("AP MAC: " + str(frame.addr2))
  print("Len: " + str(frame.len))
  frame[Dot11Elt][0].ID = frame[Dot11Elt][1].ID
  frame[Dot11Elt][0].info = frame[Dot11Elt][1].info
  rates = frame[Dot11Elt][0].info
  frame[Dot11Elt][0].len = frame[Dot11Elt][1].len
  frame[Dot11Elt][1].ID = 'SSID'
  frame[Dot11Elt][1].info = "ABCD"
  frame[Dot11Elt][1].len = 4
  frame[Dot11Elt][4].info = "HR \x00\x00$"
  frame.show()
  sendp(frame, iface=iface, loop=1, inter=0.1)
  \<close>
  Every statement is modelled by a function of the same effect. A statement that raises
  is a function that returns \<open>Inl\<close> of the exception; the script has no \<open>try\<close>, so the
  first exception ends it. The lines in front of these (the imports, the colour theme,
  the recursion limit and the interface name \<open>iface\<close>) touch no frame, and the string at
  the end of the file is never executed.
\<close>

subsection \<open>Exceptions\<close>

text \<open>
  \<open>IndexError\<close> is what Python raises for \<open>frames[0]\<close> on an empty list and what the
  packet library raises for a layer index that does not exist; \<open>AttributeError\<close> is raised
  for a field no layer of the packet has. The four names after them are the error
  taxonomy of the specification; the script defines no exception class, so no statement
  of it raises one of these four by that name. They are values here so that a statement
  about them can be written down and compared with what the code raises.
\<close>

datatype error =
    IndexError
  | AttributeError
  | CaptureReadError
  | EmptyCaptureError
  | InterfaceError
  | MalformedFrameError

definition bind :: "error + 'a \<Rightarrow> ('a \<Rightarrow> error + 'b) \<Rightarrow> error + 'b" where
  "bind m k = (case m of Inl e \<Rightarrow> Inl e | Inr x \<Rightarrow> k x)"

subsection \<open>Frames and information elements\<close>

text \<open>
  A \<open>Dot11Elt\<close> layer has the three fields \<open>ID\<close>, \<open>len\<close> and \<open>info\<close>. The two numbers are
  Python integers; \<open>info\<close> is a Python 2 \<open>str\<close>, a sequence of bytes, which is what a HOL
  \<open>string\<close> is. A frame is the part of the packet in front of the first \<open>Dot11Elt\<close>
  (of which the script touches \<open>addr2\<close>, and reads \<open>len\<close> where a layer there has such a
  field, as a radiotap header does) followed by the chain of layers \<open>frame[Dot11Elt]\<close>,
  all of them information elements.
\<close>

record Dot11Elt =
  ID :: int
  len :: int
  info :: string

record frame =
  addr2 :: string
  hdr_len :: "int option"
  elts :: "Dot11Elt list"

text \<open>The library's name table for \<open>Dot11Elt.ID\<close> maps \<open>'SSID'\<close> to tag 0.\<close>

definition SSID :: int where
  "SSID = 0"

text \<open>\<open>frames[0]\<close>: the first item of the loaded sequence, \<open>IndexError\<close> on an empty one.\<close>

definition select_first :: "'a list \<Rightarrow> error + 'a" where
  "select_first frames = (case frames of [] \<Rightarrow> Inl IndexError | x # _ \<Rightarrow> Inr x)"

text \<open>
  \<open>frame[Dot11Elt][k]\<close>: the \<open>k\<close>-th layer counted from the first information element;
  the lookup raises \<open>IndexError\<close> when the chain has no such layer.
\<close>

definition get_elt :: "nat \<Rightarrow> frame \<Rightarrow> error + Dot11Elt" where
  "get_elt k f = (if k < length (elts f) then Inr (elts f ! k) else Inl IndexError)"

text \<open>
  \<open>frame[Dot11Elt][k].fld = v\<close>: the layer is looked up, then the attribute is stored as
  it is given. Nothing compares \<open>len\<close> with the size of \<open>info\<close>.
\<close>

definition update_elt :: "nat \<Rightarrow> (Dot11Elt \<Rightarrow> Dot11Elt) \<Rightarrow> frame \<Rightarrow> error + frame" where
  "update_elt k g f =
     bind (get_elt k f) (\<lambda>e. Inr (f\<lparr>elts := (elts f)[k := g e]\<rparr>))"

definition set_ID :: "nat \<Rightarrow> int \<Rightarrow> frame \<Rightarrow> error + frame" where
  "set_ID k v f = update_elt k (\<lambda>e. e\<lparr>ID := v\<rparr>) f"

definition set_len :: "nat \<Rightarrow> int \<Rightarrow> frame \<Rightarrow> error + frame" where
  "set_len k v f = update_elt k (\<lambda>e. e\<lparr>len := v\<rparr>) f"

definition set_info :: "nat \<Rightarrow> string \<Rightarrow> frame \<Rightarrow> error + frame" where
  "set_info k v f = update_elt k (\<lambda>e. e\<lparr>info := v\<rparr>) f"

definition set_addr2 :: "string \<Rightarrow> frame \<Rightarrow> error + frame" where
  "set_addr2 v f = Inr (f\<lparr>addr2 := v\<rparr>)"

text \<open>
  The three assignments as one operation, the field named by the constructor of the value
  it is given: the specification's \<open>set_element_field(frame, element_index, field, value)\<close>.
\<close>

datatype field_value = Set_ID int | Set_len int | Set_info string

fun set_element_field :: "frame \<Rightarrow> nat \<Rightarrow> field_value \<Rightarrow> error + frame" where
  "set_element_field f k (Set_ID v) = set_ID k v f"
| "set_element_field f k (Set_len v) = set_len k v f"
| "set_element_field f k (Set_info v) = set_info k v f"

text \<open>
  \<open>frame[Dot11Elt][dst].fld = frame[Dot11Elt][src].fld\<close>: Python evaluates the right-hand
  side first, then stores into the target.
\<close>

definition copy_ID :: "nat \<Rightarrow> nat \<Rightarrow> frame \<Rightarrow> error + frame" where
  "copy_ID dst src f = bind (get_elt src f) (\<lambda>e. set_ID dst (ID e) f)"

definition copy_info :: "nat \<Rightarrow> nat \<Rightarrow> frame \<Rightarrow> error + frame" where
  "copy_info dst src f = bind (get_elt src f) (\<lambda>e. set_info dst (info e) f)"

definition copy_len :: "nat \<Rightarrow> nat \<Rightarrow> frame \<Rightarrow> error + frame" where
  "copy_len dst src f = bind (get_elt src f) (\<lambda>e. set_len dst (len e) f)"

text \<open>Statements one after the other; the first exception ends the sequence.\<close>

fun seq :: "('s \<Rightarrow> error + 's) list \<Rightarrow> 's \<Rightarrow> error + 's" where
  "seq [] s = Inr s"
| "seq (stmt # stmts) s = bind (stmt s) (seq stmts)"

text \<open>
  The block that reorders elements 0 and 1 (the specification's \<open>swap_elements\<close>):
  \<^verbatim>\<open>
  frame[Dot11Elt][0].ID = frame[Dot11Elt][1].ID
  frame[Dot11Elt][0].info = frame[Dot11Elt][1].info
  rates = frame[Dot11Elt][0].info
  frame[Dot11Elt][0].len = frame[Dot11Elt][1].len
  frame[Dot11Elt][1].ID = 'SSID'
  frame[Dot11Elt][1].info = "ABCD"
  frame[Dot11Elt][1].len = 4
  \<close>
  The variable \<open>rates\<close> is read from an element that the line before has just written and
  is never used again, so it adds no statement to the model.
\<close>

definition reorder :: "frame \<Rightarrow> error + frame" where
  "reorder =
     seq [copy_ID 0 1, copy_info 0 1, copy_len 0 1,
          set_ID 1 SSID, set_info 1 ''ABCD'', set_len 1 4]"

text \<open>\<open>ssid_name = "A"*32\<close>, and the two assignments that install it in element 0.\<close>

definition ssid_name :: string where
  "ssid_name = replicate 32 CHR ''A''"

definition set_ssid :: "string \<Rightarrow> frame \<Rightarrow> error + frame" where
  "set_ssid name = seq [set_info 0 name, set_len 0 32]"

text \<open>
  Reading an attribute of the whole packet, as \<open>frame.info\<close> and \<open>frame.len\<close> do, gives the
  field of the first layer that has one of that name. No layer in front of the elements
  has an \<open>info\<close>; a \<open>len\<close> in front of them is \<open>hdr_len\<close>.
\<close>

definition frame_info :: "frame \<Rightarrow> error + string" where
  "frame_info f = (case elts f of [] \<Rightarrow> Inl AttributeError | e # _ \<Rightarrow> Inr (info e))"

definition frame_len :: "frame \<Rightarrow> error + int" where
  "frame_len f =
     (case hdr_len f of
        Some n \<Rightarrow> Inr n
      | None \<Rightarrow> (case elts f of [] \<Rightarrow> Inl AttributeError | e # _ \<Rightarrow> Inr (len e)))"

text \<open>\<open>str\<close> of an integer: its decimal digits, with a sign when it is negative.\<close>

fun digits :: "nat \<Rightarrow> string" where
  "digits n =
     (if n < 10 then [char_of (48 + n)]
      else digits (n div 10) @ [char_of (48 + n mod 10)])"

declare digits.simps [simp del]

definition str :: "int \<Rightarrow> string" where
  "str i = (if i < 0 then CHR ''-'' # digits (nat (- i)) else digits (nat i))"

subsection \<open>The script on the objects it shares\<close>

text \<open>
  \<open>rdpcap\<close> returns a list of packet objects and \<open>frame = frames[0]\<close> binds \<open>frame\<close> to the
  first of these objects, not to a copy of it: every assignment through \<open>frame\<close> is seen
  through \<open>frames[0]\<close> too. The state therefore keeps the objects in a store, \<open>heap\<close>, where
  the address of an object is its position, and \<open>frames\<close> and \<open>frame\<close> hold addresses.
  \<open>console\<close> is what has been printed, and \<open>sending\<close> the frame that \<open>sendp\<close> was given.
\<close>

datatype event = Show frame | Print string

record state =
  heap :: "frame list"
  frames :: "nat list"
  console :: "event list"
  sending :: "frame option"

text \<open>
  The argument of \<open>rdpcap\<close> here is what the library parsed from the capture file: its
  reader and its dissector are not part of the repository. The objects are allocated
  one after the other.
\<close>

definition rdpcap :: "frame list \<Rightarrow> state" where
  "rdpcap capture =
     \<lparr>heap = capture, frames = [0..<length capture], console = [], sending = None\<rparr>"

text \<open>The frames that the sequence \<open>frames\<close> holds: each of its references, followed.\<close>

definition loaded :: "state \<Rightarrow> frame list" where
  "loaded s = map (\<lambda>a. heap s ! a) (frames s)"

text \<open>A statement on the object at address \<open>a\<close> replaces it in the store, in place.\<close>

definition assign :: "nat \<Rightarrow> (frame \<Rightarrow> error + frame) \<Rightarrow> state \<Rightarrow> error + state" where
  "assign a stmt s =
     bind (stmt (heap s ! a)) (\<lambda>f. Inr (s\<lparr>heap := (heap s)[a := f]\<rparr>))"

definition show_frame :: "nat \<Rightarrow> state \<Rightarrow> error + state" where
  "show_frame a s = Inr (s\<lparr>console := console s @ [Show (heap s ! a)]\<rparr>)"

definition print :: "string \<Rightarrow> (frame \<Rightarrow> error + string) \<Rightarrow> nat \<Rightarrow> state \<Rightarrow> error + state" where
  "print label expr a s =
     bind (expr (heap s ! a)) (\<lambda>v. Inr (s\<lparr>console := console s @ [Print (label @ v)]\<rparr>))"

text \<open>
  \<open>sendp(frame, iface=iface, loop=1, inter=0.1)\<close> is given the object as it is at that
  moment and sends it again and again; the script has no statement after it. What the
  interface and the clock do is outside this model.
\<close>

definition sendp :: "nat \<Rightarrow> state \<Rightarrow> error + state" where
  "sendp a s = Inr (s\<lparr>sending := Some (heap s ! a)\<rparr>)"

definition wifi_fuzzer :: "frame list \<Rightarrow> error + state" where
  "wifi_fuzzer capture =
     (let s = rdpcap capture in
      bind (select_first (frames s)) (\<lambda>frame.
        seq [show_frame frame,
             assign frame (set_ssid ssid_name),
             assign frame (set_addr2 ''40:e3:d6:bf:dd:01''),
             print ''SSID '' frame_info frame,
             print ''AP MAC: '' (\<lambda>f. Inr (addr2 f)) frame,
             print ''Len: '' (\<lambda>f. bind (frame_len f) (\<lambda>n. Inr (str n))) frame,
             assign frame reorder,
             assign frame (set_info 4 [CHR ''H'', CHR ''R'', CHR '' '', CHR 0x00, CHR 0x00, CHR ''$'']),
             show_frame frame,
             sendp frame] s))"

subsection \<open>Elements on the wire\<close>

text \<open>
  The invariant of the specification's data model: the length field of an element is the
  number of bytes of its payload. No statement of the script checks it.
\<close>

definition well_formed :: "Dot11Elt \<Rightarrow> bool" where
  "well_formed e = (len e = int (length (info e)))"

text \<open>
  Modelled from the spec: the serialisation of the information elements of a frame and
  its inverse, which are the packet library's build and dissect and are not in the
  repository. The specification's data model has them tag-length-value encoded: one
  byte of \<open>id\<close>, one byte of \<open>length\<close>, then the bytes of \<open>payload\<close>, element after element.
  The length byte written is the \<open>len\<close> field as it stands, not one recomputed from the
  payload; a tag or length that does not fit a byte cannot be written (\<open>None\<close>).
  Dissection reads the tag, the length and as many payload bytes as the length says (or
  as are left); a single trailing byte is no element.
\<close>

definition byte :: "int \<Rightarrow> char option" where
  "byte n = (if 0 \<le> n \<and> n < 256 then Some (char_of n) else None)"

definition build_elt :: "Dot11Elt \<Rightarrow> string option" where
  "build_elt e =
     (case byte (ID e) of
        None \<Rightarrow> None
      | Some i \<Rightarrow> (case byte (len e) of None \<Rightarrow> None | Some l \<Rightarrow> Some (i # l # info e)))"

fun build_elts :: "Dot11Elt list \<Rightarrow> string option" where
  "build_elts [] = Some []"
| "build_elts (e # es) =
     (case build_elt e of
        None \<Rightarrow> None
      | Some b \<Rightarrow> (case build_elts es of None \<Rightarrow> None | Some bs \<Rightarrow> Some (b @ bs)))"

fun dissect_elts :: "string \<Rightarrow> Dot11Elt list" where
  "dissect_elts (i # l # rest) =
     \<lparr>ID = of_char i, len = of_char l, info = take (of_char l) rest\<rparr>
       # dissect_elts (drop (of_char l) rest)"
| "dissect_elts _ = []"

subsection \<open>An example capture\<close>

text \<open>
  A beacon with the usual first five elements: SSID, supported rates, channel, traffic
  map and extended rates. It is the concrete input of the examples below.
\<close>

definition beacon :: frame where
  "beacon =
     \<lparr>addr2 = ''00:11:22:33:44:55'', hdr_len = Some 18,
      elts =
        [\<lparr>ID = 0, len = 3, info = ''lab''\<rparr>,
         \<lparr>ID = 1, len = 8, info = [CHR 0x82, CHR 0x84, CHR 0x8B, CHR 0x96, CHR 0x0C, CHR 0x12, CHR 0x18, CHR 0x24]\<rparr>,
         \<lparr>ID = 3, len = 1, info = [CHR 0x06]\<rparr>,
         \<lparr>ID = 5, len = 4, info = [CHR 0x00, CHR 0x01, CHR 0x00, CHR 0x00]\<rparr>,
         \<lparr>ID = 50, len = 4, info = [CHR 0x30, CHR 0x48, CHR 0x60, CHR 0x6C]\<rparr>]\<rparr>"

section \<open>Properties\<close>

subsection \<open>Statements on one frame\<close>

lemma bind_Inr: "bind (Inr x) k = k x"
  by (simp add: bind_def)

lemma bind_Inl: "bind (Inl e) k = Inl e"
  by (simp add: bind_def)

lemma get_elt_in: "k < length (elts f) \<Longrightarrow> get_elt k f = Inr (elts f ! k)"
  by (simp add: get_elt_def)

lemma update_elt_in:
  "k < length (elts f) \<Longrightarrow>
   update_elt k g f = Inr (f\<lparr>elts := (elts f)[k := g (elts f ! k)]\<rparr>)"
  by (simp add: update_elt_def get_elt_def bind_def)

lemma update_elt_out: "\<not> k < length (elts f) \<Longrightarrow> update_elt k g f = Inl IndexError"
  by (simp add: update_elt_def get_elt_def bind_def)

lemmas setters = set_ID_def set_len_def set_info_def copy_ID_def copy_info_def copy_len_def

text \<open>An index past the last element is the one way an assignment fails.\<close>

lemma set_element_field_out:
  "\<not> k < length (elts f) \<Longrightarrow> set_element_field f k fv = Inl IndexError"
  by (cases fv) (simp_all add: setters update_elt_out)

text \<open>
  C8. Assigning a field of an information element that the frame has always succeeds,
  whatever the value: nothing is validated, so a payload may be stored whose size is not
  the element's \<open>len\<close>. The assignment changes that one field of that one element; the
  other two fields of the element, every other element, the number of elements and the
  fields in front of them stay as they were.
\<close>

theorem set_element_field_exact:
  assumes "k < length (elts f)"
  shows "\<exists>f'. set_element_field f k fv = Inr f'
           \<and> addr2 f' = addr2 f \<and> hdr_len f' = hdr_len f
           \<and> length (elts f') = length (elts f)
           \<and> (\<forall>j. j \<noteq> k \<longrightarrow> elts f' ! j = elts f ! j)
           \<and> (case fv of
                 Set_ID v \<Rightarrow> ID (elts f' ! k) = v \<and> len (elts f' ! k) = len (elts f ! k)
                     \<and> info (elts f' ! k) = info (elts f ! k)
               | Set_len v \<Rightarrow> len (elts f' ! k) = v \<and> ID (elts f' ! k) = ID (elts f ! k)
                     \<and> info (elts f' ! k) = info (elts f ! k)
               | Set_info v \<Rightarrow> info (elts f' ! k) = v \<and> ID (elts f' ! k) = ID (elts f ! k)
                     \<and> len (elts f' ! k) = len (elts f ! k))"
  using assms by (cases fv) (simp_all add: setters update_elt_in)

text \<open>
  On the example beacon: the six bytes of the script's last assignment go into element 4,
  whose \<open>len\<close> stays 4, and element 3 is untouched.
\<close>

theorem set_element_field_exact_witness:
  "4 < length (elts beacon)
   \<and> (\<exists>f'. set_element_field beacon 4
               (Set_info [CHR ''H'', CHR ''R'', CHR '' '', CHR 0x00, CHR 0x00, CHR ''$'']) = Inr f'
          \<and> info (elts f' ! 4) = [CHR ''H'', CHR ''R'', CHR '' '', CHR 0x00, CHR 0x00, CHR ''$'']
          \<and> ID (elts f' ! 4) = 50
          \<and> len (elts f' ! 4) = 4
          \<and> elts f' ! 3 = \<lparr>ID = 5, len = 4, info = [CHR 0x00, CHR 0x01, CHR 0x00, CHR 0x00]\<rparr>
          \<and> length (elts f') = 5)"
proof -
  have h: "4 < length (elts beacon)"
    by (simp add: beacon_def)
  from set_element_field_exact [OF h, of "Set_info [CHR ''H'', CHR ''R'', CHR '' '', CHR 0x00, CHR 0x00, CHR ''$'']"]
  obtain f' where
    r: "set_element_field beacon 4
          (Set_info [CHR ''H'', CHR ''R'', CHR '' '', CHR 0x00, CHR 0x00, CHR ''$'']) = Inr f'" and
    n: "length (elts f') = length (elts beacon)" and
    others: "\<forall>j. j \<noteq> 4 \<longrightarrow> elts f' ! j = elts beacon ! j" and
    e4: "info (elts f' ! 4) = [CHR ''H'', CHR ''R'', CHR '' '', CHR 0x00, CHR 0x00, CHR ''$'']"
        "ID (elts f' ! 4) = ID (elts beacon ! 4)" "len (elts f' ! 4) = len (elts beacon ! 4)"
    by auto
  from others have e3: "elts f' ! 3 = elts beacon ! 3"
    by simp
  from h r n e3 e4 show ?thesis
    by (simp add: beacon_def)
qed

subsection \<open>The reorder block\<close>

lemma reorder_Cons:
  assumes "elts f = a # b # rest"
  shows "reorder f = Inr (f\<lparr>elts := b # \<lparr>ID = SSID, len = 4, info = ''ABCD''\<rparr> # rest\<rparr>)"
  using assms
  by (simp add: reorder_def setters update_elt_def get_elt_def bind_def)

lemma two_elts: "2 \<le> length xs \<Longrightarrow> \<exists>a b rest. xs = a # b # rest"
  by (cases xs; cases "tl xs") auto

lemma reorder_short: "length (elts f) < 2 \<Longrightarrow> reorder f = Inl IndexError"
  by (simp add: reorder_def setters update_elt_def get_elt_def bind_def)

text \<open>
  C1, as the claim states it, fails: the block is not an exchange. On the example beacon
  it runs, and element 1 does not end up with the triple that element 0 had.
\<close>

theorem reorder_not_swap:
  "(case reorder beacon of Inl e \<Rightarrow> False | Inr f' \<Rightarrow> elts f' ! 1 \<noteq> elts beacon ! 0)"
  by (simp add: reorder_Cons beacon_def)

text \<open>
  C1, amended. On a frame with at least two information elements the block succeeds;
  afterwards element 0 holds the \<open>ID\<close>, \<open>len\<close> and \<open>info\<close> that element 1 had, element 1
  holds the tag \<open>SSID\<close> with payload \<open>"ABCD"\<close> and length 4, and every other element, the
  number of elements and the fields in front of them are unchanged.
\<close>

theorem reorder_effect:
  assumes "2 \<le> length (elts f)"
  shows "\<exists>f'. reorder f = Inr f'
           \<and> elts f' ! 0 = elts f ! 1
           \<and> elts f' ! 1 = \<lparr>ID = SSID, len = 4, info = ''ABCD''\<rparr>
           \<and> (\<forall>j. 2 \<le> j \<longrightarrow> elts f' ! j = elts f ! j)
           \<and> length (elts f') = length (elts f)
           \<and> addr2 f' = addr2 f \<and> hdr_len f' = hdr_len f"
proof -
  from assms obtain a b rest where e: "elts f = a # b # rest"
    using two_elts by blast
  have nth: "\<And>j x y. 2 \<le> j \<Longrightarrow> (x # y # rest) ! j = rest ! (j - 2)"
    by (simp add: nth_Cons split: nat.splits)
  show ?thesis
    using e nth by (simp add: reorder_Cons)
qed

theorem reorder_effect_witness:
  "2 \<le> length (elts beacon)
   \<and> (\<exists>f'. reorder beacon = Inr f'
          \<and> elts f' ! 0 = \<lparr>ID = 1, len = 8, info = [CHR 0x82, CHR 0x84, CHR 0x8B, CHR 0x96, CHR 0x0C, CHR 0x12, CHR 0x18, CHR 0x24]\<rparr>
          \<and> elts f' ! 1 = \<lparr>ID = 0, len = 4, info = ''ABCD''\<rparr>
          \<and> elts f' ! 2 = \<lparr>ID = 3, len = 1, info = [CHR 0x06]\<rparr>
          \<and> length (elts f') = 5)"
proof -
  have h: "2 \<le> length (elts beacon)"
    by (simp add: beacon_def)
  from reorder_effect [OF h] obtain f' where
    r: "reorder beacon = Inr f'" and
    e0: "elts f' ! 0 = elts beacon ! 1" and
    e1: "elts f' ! 1 = \<lparr>ID = SSID, len = 4, info = ''ABCD''\<rparr>" and
    rest: "\<forall>j. 2 \<le> j \<longrightarrow> elts f' ! j = elts beacon ! j" and
    n: "length (elts f') = length (elts beacon)"
    by blast
  from rest have e2: "elts f' ! 2 = elts beacon ! 2"
    by simp
  from h r e0 e1 e2 n show ?thesis
    by (simp add: beacon_def SSID_def)
qed

subsection \<open>Selecting the first frame\<close>

text \<open>
  C4, as the claim states it, fails: on an empty sequence the failure is not an
  \<open>EmptyCaptureError\<close>.
\<close>

theorem select_first_not_EmptyCaptureError:
  "select_first ([] :: frame list) \<noteq> Inl EmptyCaptureError"
  by (simp add: select_first_def)

text \<open>
  C4, amended. \<open>frames[0]\<close> is the first frame of a sequence that has one, and raises
  Python's \<open>IndexError\<close>, so is never a frame, on the empty sequence.
\<close>

theorem select_first_result:
  "select_first (x # xs) = Inr x \<and> select_first [] = Inl IndexError
   \<and> (\<forall>y. select_first ([] :: 'a list) \<noteq> Inr y)"
  by (simp add: select_first_def)

subsection \<open>The whole script\<close>

lemma select_first_upt: "select_first [0..<Suc n] = Inr 0"
  by (simp add: select_first_def upt_conv_Cons del: upt_Suc)

lemma select_first_frames:
  "select_first (frames (rdpcap capture)) = (if capture = [] then Inl IndexError else Inr 0)"
  by (cases capture) (simp_all add: rdpcap_def select_first_def upt_conv_Cons del: upt_Suc)

lemma set_ssid_Cons:
  "elts f = e # es \<Longrightarrow> set_ssid v f = Inr (f\<lparr>elts := e\<lparr>info := v, len := 32\<rparr> # es\<rparr>)"
  by (simp add: set_ssid_def setters update_elt_def get_elt_def bind_def)

text \<open>
  The run of the script on a capture whose first frame has at least five information
  elements: the state when \<open>sendp\<close> has been called.
\<close>

lemma wifi_fuzzer_run:
  assumes "elts f = e0 # e1 # e2 # e3 # e4 # rest"
  shows "wifi_fuzzer (f # fs) =
    Inr \<lparr>heap = f\<lparr>addr2 := ''40:e3:d6:bf:dd:01'',
                   elts := e1 # \<lparr>ID = SSID, len = 4, info = ''ABCD''\<rparr> # e2 # e3
                     # e4\<lparr>info := [CHR ''H'', CHR ''R'', CHR '' '', CHR 0x00, CHR 0x00, CHR ''$'']\<rparr> # rest\<rparr> # fs,
          frames = [0..<Suc (length fs)],
          console =
            [Show f,
             Print (''SSID '' @ ssid_name),
             Print ''AP MAC: 40:e3:d6:bf:dd:01'',
             Print (''Len: '' @ str (case hdr_len f of Some n \<Rightarrow> n | None \<Rightarrow> 32)),
             Show (f\<lparr>addr2 := ''40:e3:d6:bf:dd:01'',
                   elts := e1 # \<lparr>ID = SSID, len = 4, info = ''ABCD''\<rparr> # e2 # e3
                     # e4\<lparr>info := [CHR ''H'', CHR ''R'', CHR '' '', CHR 0x00, CHR 0x00, CHR ''$'']\<rparr> # rest\<rparr>)],
          sending = Some (f\<lparr>addr2 := ''40:e3:d6:bf:dd:01'',
                   elts := e1 # \<lparr>ID = SSID, len = 4, info = ''ABCD''\<rparr> # e2 # e3
                     # e4\<lparr>info := [CHR ''H'', CHR ''R'', CHR '' '', CHR 0x00, CHR 0x00, CHR ''$'']\<rparr> # rest\<rparr>)\<rparr>"
  using assms
  by (simp add: wifi_fuzzer_def Let_def select_first_frames bind_Inr assign_def show_frame_def
      print_def sendp_def set_ssid_Cons reorder_Cons set_addr2_def frame_info_def frame_len_def
      set_info_def update_elt_def get_elt_def rdpcap_def select_first_upt del: upt_Suc split: option.splits)


text \<open>
  On any other capture the script stops with an \<open>IndexError\<close> and sends nothing: at
  \<open>frames[0]\<close> when the capture is empty, at the first element index the frame lacks
  otherwise.
\<close>

lemma five_elts: "5 \<le> length xs \<Longrightarrow> \<exists>e0 e1 e2 e3 e4 rest. xs = e0 # e1 # e2 # e3 # e4 # rest"
  by (cases xs; cases "tl xs"; cases "tl (tl xs)"; cases "tl (tl (tl xs))";
      cases "tl (tl (tl (tl xs)))") auto

lemma wifi_fuzzer_empty: "wifi_fuzzer [] = Inl IndexError"
  by (simp add: wifi_fuzzer_def rdpcap_def select_first_def bind_def)

lemma wifi_fuzzer_short:
  assumes "length (elts f) < 5"
  shows "wifi_fuzzer (f # fs) = Inl IndexError"
proof -
  have run: "wifi_fuzzer (f # fs) =
      seq [show_frame 0,
             assign 0 (set_ssid ssid_name),
             assign 0 (set_addr2 ''40:e3:d6:bf:dd:01''),
             print ''SSID '' frame_info 0,
             print ''AP MAC: '' (\<lambda>f. Inr (addr2 f)) 0,
             print ''Len: '' (\<lambda>f. bind (frame_len f) (\<lambda>n. Inr (str n))) 0,
             assign 0 reorder,
             assign 0 (set_info 4 [CHR ''H'', CHR ''R'', CHR '' '', CHR 0x00, CHR 0x00, CHR ''$'']),
             show_frame 0,
             sendp 0] (rdpcap (f # fs))"
    by (simp add: wifi_fuzzer_def Let_def select_first_frames bind_Inr)
  consider "elts f = []" | e0 where "elts f = [e0]" | e0 e1 where "elts f = [e0, e1]"
    | e0 e1 e2 where "elts f = [e0, e1, e2]" | e0 e1 e2 e3 where "elts f = [e0, e1, e2, e3]"
    using assms
    by (cases "elts f"; cases "tl (elts f)"; cases "tl (tl (elts f))";
        cases "tl (tl (tl (elts f)))"; cases "tl (tl (tl (tl (elts f))))") auto
  then show ?thesis
  proof cases
    case 1
    then show ?thesis
      unfolding run
      by (simp add: assign_def show_frame_def rdpcap_def set_ssid_def set_info_def
          update_elt_def get_elt_def bind_def del: upt_Suc)
  next
    case 2
    then show ?thesis
      unfolding run
      by (simp add: assign_def show_frame_def print_def rdpcap_def set_ssid_Cons set_addr2_def
          frame_info_def frame_len_def reorder_short bind_def del: upt_Suc split: option.splits)
  next
    case 3
    then show ?thesis
      unfolding run
      by (simp add: assign_def show_frame_def print_def rdpcap_def set_ssid_Cons set_addr2_def
          frame_info_def frame_len_def reorder_Cons set_info_def update_elt_def get_elt_def
          bind_def del: upt_Suc split: option.splits)
  next
    case 4
    then show ?thesis
      unfolding run
      by (simp add: assign_def show_frame_def print_def rdpcap_def set_ssid_Cons set_addr2_def
          frame_info_def frame_len_def reorder_Cons set_info_def update_elt_def get_elt_def
          bind_def del: upt_Suc split: option.splits)
  next
    case 5
    then show ?thesis
      unfolding run
      by (simp add: assign_def show_frame_def print_def rdpcap_def set_ssid_Cons set_addr2_def
          frame_info_def frame_len_def reorder_Cons set_info_def update_elt_def get_elt_def
          bind_def del: upt_Suc split: option.splits)
  qed
qed


subsection \<open>The loaded sequence\<close>

lemma loaded_rdpcap: "loaded (rdpcap capture) = capture"
  by (simp add: loaded_def rdpcap_def map_nth)

lemma loaded_all: "frames s = [0..<length (heap s)] \<Longrightarrow> loaded s = heap s"
  by (simp add: loaded_def map_nth)

lemma elts_beacon:
  "elts beacon =
     \<lparr>ID = 0, len = 3, info = ''lab''\<rparr>
     # \<lparr>ID = 1, len = 8, info = [CHR 0x82, CHR 0x84, CHR 0x8B, CHR 0x96, CHR 0x0C, CHR 0x12, CHR 0x18, CHR 0x24]\<rparr>
     # \<lparr>ID = 3, len = 1, info = [CHR 0x06]\<rparr>
     # \<lparr>ID = 5, len = 4, info = [CHR 0x00, CHR 0x01, CHR 0x00, CHR 0x00]\<rparr>
     # \<lparr>ID = 50, len = 4, info = [CHR 0x30, CHR 0x48, CHR 0x60, CHR 0x6C]\<rparr>
     # []"
  by (simp add: beacon_def)

lemma addr2_changed:
  assumes "addr2 f \<noteq> m"
  shows "f\<lparr>addr2 := m, elts := es\<rparr> \<noteq> f"
proof
  assume "f\<lparr>addr2 := m, elts := es\<rparr> = f"
  then have "addr2 (f\<lparr>addr2 := m, elts := es\<rparr>) = addr2 f"
    by (rule arg_cong)
  with assms show False
    by simp
qed

lemma not_ssid_name: "length v \<noteq> 32 \<Longrightarrow> v \<noteq> ssid_name"
  by (auto simp add: ssid_name_def)

text \<open>
  C3, as the claim states it, fails: on the capture that holds the example beacon, the
  frames held by \<open>frames\<close> after the script are not the frames that were loaded.
\<close>

theorem capture_not_immutable:
  "(case wifi_fuzzer [beacon] of Inl e \<Rightarrow> False | Inr s \<Rightarrow> loaded s \<noteq> loaded (rdpcap [beacon]))"
proof -
  have "addr2 beacon \<noteq> ''40:e3:d6:bf:dd:01''"
    by (simp add: beacon_def)
  then show ?thesis
    unfolding loaded_rdpcap
    by (simp add: wifi_fuzzer_run [OF elts_beacon] loaded_def addr2_changed)
qed

text \<open>
  C3, amended. The script keeps the sequence \<open>frames\<close> itself as loaded (the same
  references, in the same order) and every frame behind the first as loaded; the first
  frame is the object the script assigns to, so after the script \<open>frames[0]\<close> is the
  mutated frame that \<open>sendp\<close> is given: source address \<open>40:e3:d6:bf:dd:01\<close>, element 0
  the former element 1, element 1 the SSID \<open>"ABCD"\<close>, element 4 with the new payload.
\<close>

theorem capture_mutated_in_place:
  assumes "capture \<noteq> []" and "5 \<le> length (elts (hd capture))"
  shows "\<exists>s tx. wifi_fuzzer capture = Inr s
           \<and> frames s = frames (rdpcap capture)
           \<and> loaded s = tx # tl capture
           \<and> sending s = Some tx
           \<and> addr2 tx = ''40:e3:d6:bf:dd:01''
           \<and> elts tx ! 0 = elts (hd capture) ! 1
           \<and> elts tx ! 1 = \<lparr>ID = SSID, len = 4, info = ''ABCD''\<rparr>
           \<and> elts tx ! 4 = (elts (hd capture) ! 4)
                \<lparr>info := [CHR ''H'', CHR ''R'', CHR '' '', CHR 0x00, CHR 0x00, CHR ''$'']\<rparr>"
proof -
  from assms(1) obtain f fs where c: "capture = f # fs"
    by (cases capture) auto
  with assms(2) obtain e0 e1 e2 e3 e4 rest where e: "elts f = e0 # e1 # e2 # e3 # e4 # rest"
    using five_elts [of "elts f"] by auto
  show ?thesis
    unfolding c
    by (simp add: wifi_fuzzer_run [OF e] loaded_all rdpcap_def e del: upt_Suc)
qed

theorem capture_mutated_in_place_witness:
  "[beacon, beacon] \<noteq> [] \<and> 5 \<le> length (elts (hd [beacon, beacon]))
   \<and> (\<exists>s tx. wifi_fuzzer [beacon, beacon] = Inr s
          \<and> frames s = [0, 1]
          \<and> loaded s = [tx, beacon]
          \<and> sending s = Some tx
          \<and> addr2 tx = ''40:e3:d6:bf:dd:01''
          \<and> elts tx ! 1 = \<lparr>ID = 0, len = 4, info = ''ABCD''\<rparr>
          \<and> tx \<noteq> beacon)"
proof -
  have h1: "[beacon, beacon] \<noteq> []"
    by simp
  have h2: "5 \<le> length (elts (hd [beacon, beacon]))"
    by (simp add: beacon_def)
  from capture_mutated_in_place [OF h1 h2] obtain s tx where
    "wifi_fuzzer [beacon, beacon] = Inr s"
    "frames s = frames (rdpcap [beacon, beacon])"
    "loaded s = tx # tl [beacon, beacon]"
    "sending s = Some tx"
    "addr2 tx = ''40:e3:d6:bf:dd:01''"
    "elts tx ! 1 = \<lparr>ID = SSID, len = 4, info = ''ABCD''\<rparr>"
    by blast
  moreover from this have "tx \<noteq> beacon"
    by (auto simp add: beacon_def)
  ultimately show ?thesis
    using h1 h2 by (auto simp add: rdpcap_def SSID_def)
qed

subsection \<open>What is printed and what is sent\<close>

text \<open>
  C9. The line printed for the SSID is \<open>"SSID "\<close> followed by the 32 letters of
  \<open>ssid_name\<close>. In the frame given to \<open>sendp\<close> the element tagged SSID by the script is
  element 1 and its payload is \<open>"ABCD"\<close>, which is not the printed name. An SSID element
  of the sent frame can carry the printed name only if the capture already had that very
  element behind its first one.
\<close>

theorem printed_ssid_not_transmitted:
  assumes "capture \<noteq> []" and "5 \<le> length (elts (hd capture))"
  shows "\<exists>s tx. wifi_fuzzer capture = Inr s
           \<and> console s ! 1 = Print (''SSID '' @ ssid_name)
           \<and> sending s = Some tx
           \<and> ID (elts tx ! 1) = SSID
           \<and> info (elts tx ! 1) = ''ABCD''
           \<and> info (elts tx ! 1) \<noteq> ssid_name
           \<and> (\<forall>e \<in> set (elts tx). ID e = SSID \<and> info e = ssid_name
                 \<longrightarrow> e \<in> set (tl (elts (hd capture))))"
proof -
  from assms(1) obtain f fs where c: "capture = f # fs"
    by (cases capture) auto
  with assms(2) obtain e0 e1 e2 e3 e4 rest where e: "elts f = e0 # e1 # e2 # e3 # e4 # rest"
    using five_elts [of "elts f"] by auto
  have ne: "''ABCD'' \<noteq> ssid_name"
      "[CHR ''H'', CHR ''R'', CHR '' '', CHR 0x00, CHR 0x00, CHR ''$''] \<noteq> ssid_name"
    by (simp_all add: not_ssid_name)
  show ?thesis
    unfolding c using ne
    by (auto simp add: wifi_fuzzer_run [OF e] e)
qed

lemma ssid_name_literal: "ssid_name = ''AAAAAAAAAAAAAAAAAAAAAAAAAAAAAAAA''"
  by (simp add: ssid_name_def eval_nat_numeral)

theorem printed_ssid_not_transmitted_witness:
  "[beacon] \<noteq> [] \<and> 5 \<le> length (elts (hd [beacon]))
   \<and> (\<exists>s tx. wifi_fuzzer [beacon] = Inr s
          \<and> console s ! 1 = Print ''SSID AAAAAAAAAAAAAAAAAAAAAAAAAAAAAAAA''
          \<and> sending s = Some tx
          \<and> ID (elts tx ! 1) = 0
          \<and> info (elts tx ! 1) = ''ABCD'')"
proof -
  have h1: "[beacon] \<noteq> []"
    by simp
  have h2: "5 \<le> length (elts (hd [beacon]))"
    by (simp add: beacon_def)
  from printed_ssid_not_transmitted [OF h1 h2] obtain s tx where
    "wifi_fuzzer [beacon] = Inr s"
    "console s ! 1 = Print (''SSID '' @ ssid_name)"
    "sending s = Some tx"
    "ID (elts tx ! 1) = SSID"
    "info (elts tx ! 1) = ''ABCD''"
    by blast
  with h1 h2 show ?thesis
    by (auto simp add: ssid_name_literal SSID_def)
qed

text \<open>
  C10. In the frame given to \<open>sendp\<close>, element 4 has the six-byte payload of the script's
  last assignment and the \<open>len\<close> it had in the capture: it is well-formed exactly when
  the captured length happened to be 6.
\<close>

theorem element_4_length_stale:
  assumes "capture \<noteq> []" and "5 \<le> length (elts (hd capture))"
  shows "\<exists>s tx. wifi_fuzzer capture = Inr s
           \<and> sending s = Some tx
           \<and> info (elts tx ! 4) = [CHR ''H'', CHR ''R'', CHR '' '', CHR 0x00, CHR 0x00, CHR ''$'']
           \<and> length (info (elts tx ! 4)) = 6
           \<and> len (elts tx ! 4) = len (elts (hd capture) ! 4)
           \<and> well_formed (elts tx ! 4) = (len (elts (hd capture) ! 4) = 6)"
proof -
  from assms(1) obtain f fs where c: "capture = f # fs"
    by (cases capture) auto
  with assms(2) obtain e0 e1 e2 e3 e4 rest where e: "elts f = e0 # e1 # e2 # e3 # e4 # rest"
    using five_elts [of "elts f"] by auto
  show ?thesis
    unfolding c
    by (simp add: wifi_fuzzer_run [OF e] e well_formed_def)
qed


text \<open>On the example, element 4 had length 4 in the capture, so it is sent malformed.\<close>

theorem element_4_length_stale_witness:
  "[beacon] \<noteq> [] \<and> 5 \<le> length (elts (hd [beacon]))
   \<and> (\<exists>s tx. wifi_fuzzer [beacon] = Inr s
          \<and> sending s = Some tx
          \<and> len (elts tx ! 4) = 4
          \<and> length (info (elts tx ! 4)) = 6
          \<and> \<not> well_formed (elts tx ! 4))"
proof -
  have h1: "[beacon] \<noteq> []"
    by simp
  have h2: "5 \<le> length (elts (hd [beacon]))"
    by (simp add: beacon_def)
  have l4: "len (elts (hd [beacon]) ! 4) = 4"
    by (simp add: beacon_def)
  from element_4_length_stale [OF h1 h2] obtain s tx where
    "wifi_fuzzer [beacon] = Inr s"
    "sending s = Some tx"
    "length (info (elts tx ! 4)) = 6"
    "len (elts tx ! 4) = len (elts (hd [beacon]) ! 4)"
    "well_formed (elts tx ! 4) = (len (elts (hd [beacon]) ! 4) = 6)"
    by blast
  with h1 h2 l4 show ?thesis
    by auto
qed

subsection \<open>The SSID on the wire\<close>

lemma byte_Some: "byte n = Some c \<Longrightarrow> of_char c = n"
  by (auto simp add: byte_def split: if_splits)

lemma byte_32: "byte 32 = Some (char_of (32 :: int))"
  by (simp add: byte_def)

lemma build_elts_Cons_Some:
  assumes "build_elts (e # es) = Some bs"
  obtains i l bs' where "byte (ID e) = Some i" "byte (len e) = Some l"
    "build_elts es = Some bs'" "bs = i # l # info e @ bs'"
  using assms by (auto simp add: build_elt_def split: option.splits)

text \<open>
  C2. Let a frame have a first information element and be serialisable as captured.
  Storing a 32-byte payload and the length 32 in element 0, as the script does, succeeds
  and gives that element the triple of its old tag, 32 and the payload; the frame's
  elements then serialise to bytes whose length byte for that element is 32 and whose
  next 32 bytes are the payload, and dissecting these bytes gives the same triple back.
\<close>

theorem ssid_roundtrip:
  assumes "elts f \<noteq> []" and "length v = 32" and "build_elts (elts f) \<noteq> None"
  shows "\<exists>f' bs. set_ssid v f = Inr f'
           \<and> hd (elts f') = \<lparr>ID = ID (hd (elts f)), len = 32, info = v\<rparr>
           \<and> build_elts (elts f') = Some bs
           \<and> of_char (bs ! 1) = (32 :: int)
           \<and> take 32 (drop 2 bs) = v
           \<and> hd (dissect_elts bs) = hd (elts f')"
proof -
  from assms(1) obtain e es where e: "elts f = e # es"
    by (cases "elts f") auto
  from assms(3) obtain bs0 where "build_elts (e # es) = Some bs0"
    unfolding e by auto
  then obtain i bs' where i: "byte (ID e) = Some i" and rest: "build_elts es = Some bs'"
    by (rule build_elts_Cons_Some)
  have id: "of_char i = ID e"
    using i by (rule byte_Some)
  let ?f' = "f\<lparr>elts := e\<lparr>info := v, len := 32\<rparr> # es\<rparr>"
  let ?bs = "i # char_of (32 :: int) # v @ bs'"
  have run: "set_ssid v f = Inr ?f'"
    using e by (rule set_ssid_Cons)
  have built: "build_elts (elts ?f') = Some ?bs"
    by (simp add: build_elt_def i rest byte_32)
  have l: "of_char (char_of (32 :: int)) = (32 :: int)"
    by simp
  have "(of_char (char_of (32 :: int)) :: nat) = nat (of_char (char_of (32 :: int)))"
    by (simp only: nat_of_char)
  then have n: "of_char (char_of (32 :: int)) = (32 :: nat)"
    by simp
  have "hd (elts ?f') = \<lparr>ID = ID (hd (elts f)), len = 32, info = v\<rparr>"
    by (simp add: e)
  moreover have "of_char (?bs ! 1) = (32 :: int)"
    by simp
  moreover have "take 32 (drop 2 ?bs) = v"
    using assms(2) by simp
  moreover have "hd (dissect_elts ?bs) = hd (elts ?f')"
    using assms(2) by (simp add: id l n)
  ultimately show ?thesis
    using run built by blast
qed

theorem ssid_roundtrip_witness:
  "elts beacon \<noteq> [] \<and> length ssid_name = 32 \<and> build_elts (elts beacon) \<noteq> None
   \<and> (\<exists>f' bs. set_ssid ssid_name beacon = Inr f'
          \<and> hd (elts f') = \<lparr>ID = 0, len = 32, info = ''AAAAAAAAAAAAAAAAAAAAAAAAAAAAAAAA''\<rparr>
          \<and> build_elts (elts f') = Some bs
          \<and> of_char (bs ! 1) = (32 :: int)
          \<and> take 32 (drop 2 bs) = ''AAAAAAAAAAAAAAAAAAAAAAAAAAAAAAAA''
          \<and> hd (dissect_elts bs) = \<lparr>ID = 0, len = 32, info = ''AAAAAAAAAAAAAAAAAAAAAAAAAAAAAAAA''\<rparr>)"
proof -
  have h1: "elts beacon \<noteq> []"
    by (simp add: beacon_def)
  have h2: "length ssid_name = 32"
    by (simp add: ssid_name_def)
  have h3: "build_elts (elts beacon) \<noteq> None"
    by (simp add: beacon_def build_elt_def byte_def)
  have i: "ID (hd (elts beacon)) = 0"
    by (simp add: beacon_def)
  from ssid_roundtrip [OF h1 h2 h3] obtain f' bs where
    "set_ssid ssid_name beacon = Inr f'"
    "hd (elts f') = \<lparr>ID = ID (hd (elts beacon)), len = 32, info = ssid_name\<rparr>"
    "build_elts (elts f') = Some bs"
    "of_char (bs ! 1) = (32 :: int)"
    "take 32 (drop 2 bs) = ssid_name"
    "hd (dissect_elts bs) = hd (elts f')"
    by blast
  with h1 h2 h3 i show ?thesis
    by (auto simp add: ssid_name_literal)
qed

text \<open>
  On frames that keep the invariant, dissection undoes serialisation for every element,
  so the two functions above are a faithful pair.
\<close>

lemma dissect_build:
  assumes "list_all well_formed es" and "build_elts es = Some bs"
  shows "dissect_elts bs = es"
  using assms
proof (induction es arbitrary: bs)
  case Nil
  then show ?case by simp
next
  case (Cons e es)
  from Cons.prems(2) obtain i l bs' where
    i: "byte (ID e) = Some i" and l: "byte (len e) = Some l" and
    rest: "build_elts es = Some bs'" and bs: "bs = i # l # info e @ bs'"
    by (rule build_elts_Cons_Some)
  from Cons.prems(1) have "well_formed e" and wfs: "list_all well_formed es"
    by simp_all
  then have wf: "len e = int (length (info e))"
    by (simp add: well_formed_def)
  have id: "of_char i = ID e" and ln: "of_char l = len e"
    using i l by (simp_all add: byte_Some)
  have "(of_char l :: nat) = nat (of_char l)"
    by (simp only: nat_of_char)
  with ln wf have n: "(of_char l :: nat) = length (info e)"
    by simp
  have "dissect_elts bs' = es"
    using wfs rest by (rule Cons.IH)
  then show ?case
    by (simp add: bs id ln n)
qed

end
